theory Spec2Isabelle
  imports Complex_Main
begin

section \<open>Values of the language\<close>

text \<open>
  The two source files (\<^verbatim>\<open>src/unnamed/part_000\<close>, the class-based worker, called
  variant A below, and \<^verbatim>\<open>src/index.js\<close>, variant B) are JavaScript. Their numbers are
  IEEE doubles. A number is modelled by its kind: not-a-number, the two infinities, negative
  zero, or a finite value given as a real (\<open>Fin 0\<close> is positive zero). The comparisons below
  are exact. The arithmetic operations follow the IEEE rules for the special values and for
  the sign of zero; a finite result is the exact real result, so rounding and overflow of
  finite results are not represented.
\<close>

datatype jsnum = NaN | PInf | NInf | NZero | Fin real

fun fin_val :: "jsnum \<Rightarrow> real" where
  "fin_val (Fin x) = x"
| "fin_val _ = 0"

fun num_isNaN :: "jsnum \<Rightarrow> bool" where
  "num_isNaN NaN = True"
| "num_isNaN _ = False"

fun num_isFinite :: "jsnum \<Rightarrow> bool" where
  "num_isFinite (Fin x) = True"
| "num_isFinite NZero = True"
| "num_isFinite _ = False"

fun num_isZero :: "jsnum \<Rightarrow> bool" where
  "num_isZero (Fin x) = (x = 0)"
| "num_isZero NZero = True"
| "num_isZero _ = False"

text \<open>The sign bit of a number that is not NaN.\<close>

fun num_neg :: "jsnum \<Rightarrow> bool" where
  "num_neg NInf = True"
| "num_neg NZero = True"
| "num_neg (Fin x) = (x < 0)"
| "num_neg _ = False"

definition mk_zero :: "bool \<Rightarrow> jsnum" where
  "mk_zero s = (if s then NZero else Fin 0)"

definition mk_inf :: "bool \<Rightarrow> jsnum" where
  "mk_inf s = (if s then NInf else PInf)"

text \<open>\<^verbatim>\<open>a < b\<close> on numbers: false as soon as one side is NaN; the two zeros are equal.\<close>

fun num_lt :: "jsnum \<Rightarrow> jsnum \<Rightarrow> bool" where
  "num_lt NaN b = False"
| "num_lt a NaN = False"
| "num_lt PInf b = False"
| "num_lt a NInf = False"
| "num_lt NInf b = True"
| "num_lt a PInf = True"
| "num_lt a b = (fin_val a < fin_val b)"

definition num_gt :: "jsnum \<Rightarrow> jsnum \<Rightarrow> bool" where
  "num_gt a b = num_lt b a"

definition num_le :: "jsnum \<Rightarrow> jsnum \<Rightarrow> bool" where
  "num_le a b = (\<not> num_isNaN a \<and> \<not> num_isNaN b \<and> \<not> num_lt b a)"

text \<open>\<^verbatim>\<open>a - b\<close>, \<^verbatim>\<open>a + b\<close>, \<^verbatim>\<open>a * b\<close> and \<^verbatim>\<open>a / b\<close> on numbers.\<close>

definition num_add :: "jsnum \<Rightarrow> jsnum \<Rightarrow> jsnum" where
  "num_add a b =
     (if num_isNaN a \<or> num_isNaN b then NaN
      else if \<not> num_isFinite a \<and> \<not> num_isFinite b then (if num_neg a = num_neg b then a else NaN)
      else if \<not> num_isFinite a then a
      else if \<not> num_isFinite b then b
      else if num_isZero a \<and> num_isZero b then mk_zero (num_neg a \<and> num_neg b)
      else if fin_val a + fin_val b = 0 then Fin 0
      else Fin (fin_val a + fin_val b))"

fun num_uminus :: "jsnum \<Rightarrow> jsnum" where
  "num_uminus NaN = NaN"
| "num_uminus PInf = NInf"
| "num_uminus NInf = PInf"
| "num_uminus NZero = Fin 0"
| "num_uminus (Fin x) = (if x = 0 then NZero else Fin (- x))"

definition num_sub :: "jsnum \<Rightarrow> jsnum \<Rightarrow> jsnum" where
  "num_sub a b = num_add a (num_uminus b)"

definition num_mul :: "jsnum \<Rightarrow> jsnum \<Rightarrow> jsnum" where
  "num_mul a b =
     (if num_isNaN a \<or> num_isNaN b then NaN
      else if \<not> num_isFinite a \<or> \<not> num_isFinite b then
        (if num_isZero a \<or> num_isZero b then NaN else mk_inf (num_neg a \<noteq> num_neg b))
      else if num_isZero a \<or> num_isZero b then mk_zero (num_neg a \<noteq> num_neg b)
      else Fin (fin_val a * fin_val b))"

definition num_div :: "jsnum \<Rightarrow> jsnum \<Rightarrow> jsnum" where
  "num_div a b =
     (if num_isNaN a \<or> num_isNaN b then NaN
      else if \<not> num_isFinite a then
        (if \<not> num_isFinite b then NaN else mk_inf (num_neg a \<noteq> num_neg b))
      else if \<not> num_isFinite b then mk_zero (num_neg a \<noteq> num_neg b)
      else if num_isZero b then
        (if num_isZero a then NaN else mk_inf (num_neg a \<noteq> num_neg b))
      else if num_isZero a then mk_zero (num_neg a \<noteq> num_neg b)
      else Fin (fin_val a / fin_val b))"

text \<open>
  A field of a request body is a primitive value: absent (\<open>Undefined\<close>), \<open>null\<close>, a boolean,
  a number or a string. Arrays and objects in the place of such a field are outside the
  model. A value parsed from the model's reply (\<open>json\<close>) can also be an array or an object,
  an object being the list of its own properties.

  A string is a list of characters, each standing for one UTF-16 code unit below 256.
\<close>

datatype jsval = Undefined | Null | Bool bool | Num jsnum | Str string

datatype json = Prim jsval | Arr "json list" | Obj "(string \<times> json) list"

datatype error = TypeError | SyntaxError | FetchFailed | Error string

text \<open>
  Library functions of the language that the repository calls and does not define are
  parameters of the model, collected in one record: the JSON parser (\<open>None\<close> when it throws
  a syntax error) and serialiser, the conversion of a string to a number, and the two
  conversions of a number to a string (\<^verbatim>\<open>String(n)\<close>, \<^verbatim>\<open>n.toFixed(d)\<close>). An exception
  is a value of type \<open>error\<close>; \<open>FetchFailed\<close> is the rejection of \<^verbatim>\<open>fetch\<close>.
\<close>

record runtime =
  JSON_parse :: "string \<Rightarrow> json option"
  JSON_stringify :: "json \<Rightarrow> string"
  StringToNumber :: "string \<Rightarrow> jsnum"
  NumberToString :: "jsnum \<Rightarrow> string"
  Number_toFixed :: "jsnum \<Rightarrow> nat \<Rightarrow> string"

fun typeof :: "jsval \<Rightarrow> string" where
  "typeof Undefined = ''undefined''"
| "typeof Null = ''object''"
| "typeof (Bool b) = ''boolean''"
| "typeof (Num n) = ''number''"
| "typeof (Str s) = ''string''"

fun truthy :: "jsval \<Rightarrow> bool" where
  "truthy Undefined = False"
| "truthy Null = False"
| "truthy (Bool b) = b"
| "truthy (Num n) = (\<not> num_isNaN n \<and> \<not> num_isZero n)"
| "truthy (Str s) = (s \<noteq> [])"

fun json_truthy :: "json \<Rightarrow> bool" where
  "json_truthy (Prim v) = truthy v"
| "json_truthy _ = True"

fun ToNumber :: "runtime \<Rightarrow> jsval \<Rightarrow> jsnum" where
  "ToNumber rt Undefined = NaN"
| "ToNumber rt Null = Fin 0"
| "ToNumber rt (Bool b) = (if b then Fin 1 else Fin 0)"
| "ToNumber rt (Num n) = n"
| "ToNumber rt (Str s) = StringToNumber rt s"

fun ToString :: "runtime \<Rightarrow> jsval \<Rightarrow> string" where
  "ToString rt Undefined = ''undefined''"
| "ToString rt Null = ''null''"
| "ToString rt (Bool b) = (if b then ''true'' else ''false'')"
| "ToString rt (Num n) = NumberToString rt n"
| "ToString rt (Str s) = s"

text \<open>Strings compare by code units, a proper prefix being smaller.\<close>

fun str_lt :: "string \<Rightarrow> string \<Rightarrow> bool" where
  "str_lt [] [] = False"
| "str_lt [] (y # ys) = True"
| "str_lt (x # xs) [] = False"
| "str_lt (x # xs) (y # ys) =
     ((of_char x :: nat) < of_char y \<or> (x = y \<and> str_lt xs ys))"

text \<open>
  The relational operators on primitive values: two strings compare as strings, anything
  else is converted to numbers.
\<close>

fun js_lt :: "runtime \<Rightarrow> jsval \<Rightarrow> jsval \<Rightarrow> bool" where
  "js_lt rt (Str s) (Str t) = str_lt s t"
| "js_lt rt a b = num_lt (ToNumber rt a) (ToNumber rt b)"

definition js_gt :: "runtime \<Rightarrow> jsval \<Rightarrow> jsval \<Rightarrow> bool" where
  "js_gt rt a b = js_lt rt b a"

fun js_le :: "runtime \<Rightarrow> jsval \<Rightarrow> jsval \<Rightarrow> bool" where
  "js_le rt (Str s) (Str t) = (\<not> str_lt t s)"
| "js_le rt a b = num_le (ToNumber rt a) (ToNumber rt b)"

text \<open>\<^verbatim>\<open>a - b\<close> and \<^verbatim>\<open>a / b\<close> convert both sides to numbers; \<^verbatim>\<open>a + b\<close> concatenates when one
  side is a string.\<close>

definition js_sub :: "runtime \<Rightarrow> jsval \<Rightarrow> jsval \<Rightarrow> jsval" where
  "js_sub rt a b = Num (num_sub (ToNumber rt a) (ToNumber rt b))"

definition js_div :: "runtime \<Rightarrow> jsval \<Rightarrow> jsval \<Rightarrow> jsval" where
  "js_div rt a b = Num (num_div (ToNumber rt a) (ToNumber rt b))"

definition js_mul :: "runtime \<Rightarrow> jsval \<Rightarrow> jsval \<Rightarrow> jsval" where
  "js_mul rt a b = Num (num_mul (ToNumber rt a) (ToNumber rt b))"

definition js_add :: "runtime \<Rightarrow> jsval \<Rightarrow> jsval \<Rightarrow> jsval" where
  "js_add rt a b =
     (if typeof a = ''string'' \<or> typeof b = ''string''
      then Str (ToString rt a @ ToString rt b)
      else Num (num_add (ToNumber rt a) (ToNumber rt b)))"

text \<open>\<^verbatim>\<open>a === b\<close> on primitive values.\<close>

fun strict_eq :: "jsval \<Rightarrow> jsval \<Rightarrow> bool" where
  "strict_eq (Num a) (Num b) =
     (\<not> num_isNaN a \<and> \<not> num_isNaN b \<and> \<not> num_lt a b \<and> \<not> num_lt b a)"
| "strict_eq a b = (a = b)"

subsection \<open>Strings\<close>

definition toLowerCase_char :: "char \<Rightarrow> char" where
  "toLowerCase_char c =
     (let n = (of_char c :: nat) in
      if (65 \<le> n \<and> n \<le> 90) \<or> (192 \<le> n \<and> n \<le> 222 \<and> n \<noteq> 215)
      then char_of (n + 32) else c)"

definition toLowerCase :: "string \<Rightarrow> string" where
  "toLowerCase s = map toLowerCase_char s"



definition isWhiteSpace :: "char \<Rightarrow> bool" where
  "isWhiteSpace c = ((of_char c :: nat) \<in> {9, 10, 11, 12, 13, 32, 160})"

definition trim :: "string \<Rightarrow> string" where
  "trim s = rev (dropWhile isWhiteSpace (rev (dropWhile isWhiteSpace s)))"

text \<open>\<^verbatim>\<open>text.replace(/```json|```/g, '')\<close>: scanning from the left, every code fence, with the
  word \<^verbatim>\<open>json\<close> after it when it is there, is removed.\<close>

function stripFences :: "string \<Rightarrow> string" where
  "stripFences s =
     (if s = [] then []
      else if take 7 s = ''```json'' then stripFences (drop 7 s)
      else if take 3 s = ''```'' then stripFences (drop 3 s)
      else hd s # stripFences (tl s))"
  by pat_completeness auto
termination
  by (relation "measure length") auto

declare stripFences.simps [simp del]

text \<open>\<^verbatim>\<open>String(text).replace(/[{}<>\[\]'"`]/g, '')\<close> (part_000, lines 197-199).\<close>

definition promptDelimiters :: "char set" where
  "promptDelimiters =
     {CHR ''{'', CHR ''}'', CHR ''<'', CHR ''>'', CHR ''['', CHR '']'',
      CHR 0x27, CHR 0x22, CHR ''`''}"

definition sanitizeForPrompt :: "runtime \<Rightarrow> jsval \<Rightarrow> string" where
  "sanitizeForPrompt rt text = filter (\<lambda>c. c \<notin> promptDelimiters) (ToString rt text)"

subsection \<open>Reading a property of a parsed value\<close>

text \<open>
  \<^verbatim>\<open>parsed.name\<close> for the names the code reads (\<^verbatim>\<open>signal\<close>, \<^verbatim>\<open>explanation\<close>,
  \<^verbatim>\<open>confidence\<close>), none of which is a built-in property of strings, numbers or arrays:
  reading from \<^verbatim>\<open>null\<close> or \<^verbatim>\<open>undefined\<close> throws, an object gives its own property, any
  other value gives \<^verbatim>\<open>undefined\<close>.
\<close>

fun getProp :: "json \<Rightarrow> string \<Rightarrow> error + json" where
  "getProp (Prim Null) name = Inl TypeError"
| "getProp (Prim Undefined) name = Inl TypeError"
| "getProp (Obj kvs) name = Inr (case map_of kvs name of None \<Rightarrow> Prim Undefined | Some v \<Rightarrow> v)"
| "getProp v name = Inr (Prim Undefined)"

section \<open>Fallback Signal Generator and Response Interpreter\<close>

record indicators =
  rsi :: jsval
  ema9 :: jsval
  ema21 :: jsval
  macd :: jsval
  macd_signal :: jsval

text \<open>The object \<^verbatim>\<open>{}\<close>: every property is absent.\<close>

definition emptyIndicators :: indicators where
  "emptyIndicators =
     \<lparr>rsi = Undefined, ema9 = Undefined, ema21 = Undefined, macd = Undefined,
      macd_signal = Undefined\<rparr>"

text \<open>A signal of variant A: \<^verbatim>\<open>{signal, explanation}\<close>.\<close>

record signalA =
  signal :: string
  explanation :: string

text \<open>\<^verbatim>\<open>TradingAI.generateFallbackSignal\<close> (part_000, lines 201-210).\<close>

definition generateFallbackSignal :: "runtime \<Rightarrow> indicators \<Rightarrow> signalA" where
  "generateFallbackSignal rt ind =
     (if js_gt rt (ema9 ind) (ema21 ind) \<and> js_lt rt (rsi ind) (Num (Fin 70)) then
        \<lparr>signal = ''buy'', explanation = ''Fallback: EMA bullish & RSI not overbought''\<rparr>
      else if js_lt rt (ema9 ind) (ema21 ind) \<and> js_gt rt (rsi ind) (Num (Fin 30)) then
        \<lparr>signal = ''sell'', explanation = ''Fallback: EMA bearish & RSI not oversold''\<rparr>
      else \<lparr>signal = ''hold'', explanation = ''Fallback: No clear trend''\<rparr>)"

definition signalNames :: "string list" where
  "signalNames = [''buy'', ''sell'', ''hold'']"

text \<open>
  \<^verbatim>\<open>TradingAI.tryParseAI\<close> (part_000, lines 212-233). \<open>tryParseAI_try\<close> is the body of the
  \<^verbatim>\<open>try\<close> block, an exception being the left summand; \<open>tryParseAI\<close> adds the \<^verbatim>\<open>catch\<close>.
\<close>

definition tryParseAI_cleaned :: "string \<Rightarrow> string" where
  "tryParseAI_cleaned aiRespText = trim (stripFences aiRespText)"

definition tryParseAI_try :: "runtime \<Rightarrow> string \<Rightarrow> error + signalA" where
  "tryParseAI_try rt cleaned =
     (case JSON_parse rt cleaned of
        None \<Rightarrow> Inl SyntaxError
      | Some parsed \<Rightarrow>
         (case getProp parsed ''signal'' of
            Inl e \<Rightarrow> Inl e
          | Inr (Prim (Str sig)) \<Rightarrow>
              if toLowerCase sig \<notin> set signalNames then Inl (Error ''Invalid signal value'')
              else
               (case getProp parsed ''explanation'' of
                  Inl e \<Rightarrow> Inl e
                | Inr (Prim (Str ex)) \<Rightarrow>
                    Inr \<lparr>signal = toLowerCase sig,
                         explanation = (if ex \<noteq> [] then take 500 ex else ''No explanation'')\<rparr>
                | Inr ex \<Rightarrow>
                    if json_truthy ex then Inl (Error ''Explanation must be string'')
                    else Inr \<lparr>signal = toLowerCase sig, explanation = ''No explanation''\<rparr>)
          | Inr other \<Rightarrow> Inl (Error ''Invalid signal value'')))"

definition tryParseAI :: "runtime \<Rightarrow> string \<Rightarrow> signalA" where
  "tryParseAI rt aiRespText =
     (case tryParseAI_try rt (tryParseAI_cleaned aiRespText) of
        Inr result \<Rightarrow> result
      | Inl e \<Rightarrow> generateFallbackSignal rt emptyIndicators)"

text \<open>
  A signal of variant B: \<^verbatim>\<open>{signal, confidence, explanation}\<close>. The confidence and the
  explanation are whatever value the reply holds under these names.
\<close>

record signalB =
  signalB :: string
  confidenceB :: json
  explanationB :: json

text \<open>\<^verbatim>\<open>parseAIResponse\<close> (index.js, lines 119-141). The argument is the value the gateway
  handed over; calling \<^verbatim>\<open>replace\<close> on anything but a string throws inside the \<^verbatim>\<open>try\<close>.\<close>

definition orElse :: "json \<Rightarrow> json \<Rightarrow> json" where
  "orElse a b = (if json_truthy a then a else b)"

definition parseAIResponse_try :: "runtime \<Rightarrow> json \<Rightarrow> error + signalB" where
  "parseAIResponse_try rt aiText =
     (case aiText of
        Prim (Str t) \<Rightarrow>
         (case JSON_parse rt (trim (stripFences t)) of
            None \<Rightarrow> Inl SyntaxError
          | Some parsed \<Rightarrow>
             (case getProp parsed ''signal'' of
                Inl e \<Rightarrow> Inl e
              | Inr sig \<Rightarrow>
                  if \<not> json_truthy sig then Inl (Error ''Invalid signal value'')
                  else
                   (case sig of
                      Prim (Str s) \<Rightarrow>
                        if toLowerCase s \<notin> set signalNames
                        then Inl (Error ''Invalid signal value'')
                        else
                         (case (getProp parsed ''confidence'', getProp parsed ''explanation'') of
                            (Inr c, Inr ex) \<Rightarrow>
                              Inr \<lparr>signalB = toLowerCase s,
                                   confidenceB = orElse c (Prim (Str ''medium'')),
                                   explanationB =
                                     orElse ex (Prim (Str ''No explanation provided''))\<rparr>
                          | (Inl e, _) \<Rightarrow> Inl e
                          | (_, Inl e) \<Rightarrow> Inl e)
                    | _ \<Rightarrow> Inl TypeError)))
      | _ \<Rightarrow> Inl TypeError)"

definition parseErrorSignal :: signalB where
  "parseErrorSignal =
     \<lparr>signalB = ''hold'', confidenceB = Prim (Str ''low''),
      explanationB = Prim (Str ''Error parsing AI response'')\<rparr>"

definition parseAIResponse :: "runtime \<Rightarrow> json \<Rightarrow> signalB" where
  "parseAIResponse rt aiText =
     (case parseAIResponse_try rt aiText of
        Inr result \<Rightarrow> result
      | Inl e \<Rightarrow> parseErrorSignal)"

section \<open>Request data, Indicator Validator, Derived-Value Calculator\<close>

text \<open>
  An exception is the left summand of a result; \<open>andThen\<close> moves on to the next statement
  when the previous one has not thrown.
\<close>

definition andThen :: "error + 'a \<Rightarrow> ('a \<Rightarrow> error + 'b) \<Rightarrow> error + 'b" where
  "andThen m f = (case m of Inl e \<Rightarrow> Inl e | Inr x \<Rightarrow> f x)"

text \<open>
  The candle and the request body of variant A. A field that holds an object (\<open>ohlc\<close>,
  \<open>indicators\<close>) is \<open>None\<close> when it is absent or \<^verbatim>\<open>null\<close>, so that reading a property of it
  throws; the other fields are primitive values.
\<close>

record ohlc =
  "open" :: jsval
  high :: jsval
  low :: jsval
  close :: jsval

record dataA =
  symbol :: jsval
  tf :: jsval
  ohlc :: "ohlc option"
  indicators :: "indicators option"
  adx :: jsval
  atr :: jsval
  volume_ratio :: jsval
  pattern :: jsval
  session :: jsval
  support :: jsval
  resistance :: jsval
  macd_hist_prev :: jsval

text \<open>\<^verbatim>\<open>TradingAI.validateInputs\<close> (part_000, lines 171-189), with its local function
  \<^verbatim>\<open>validateIndicator\<close>.\<close>

definition validateIndicator ::
  "runtime \<Rightarrow> jsval \<Rightarrow> jsnum \<Rightarrow> jsnum \<Rightarrow> string \<Rightarrow> error + unit" where
  "validateIndicator rt v mn mx name =
     (if typeof v \<noteq> ''number'' \<or> num_isNaN (ToNumber rt v)
         \<or> js_lt rt v (Num mn) \<or> js_gt rt v (Num mx)
      then Inl (Error (''Invalid '' @ name @ '': must be between ''
                        @ NumberToString rt mn @ ''-'' @ NumberToString rt mx))
      else Inr ())"

definition validateInputs :: "runtime \<Rightarrow> dataA \<Rightarrow> error + unit" where
  "validateInputs rt data =
     (case indicators data of
        None \<Rightarrow> Inl TypeError
      | Some ind \<Rightarrow>
          andThen (validateIndicator rt (rsi ind) (Fin 0) (Fin 100) ''RSI'') (\<lambda>_.
          andThen (validateIndicator rt (adx data) (Fin 0) (Fin 100) ''ADX'') (\<lambda>_.
          andThen (validateIndicator rt (atr data) (Fin 0) PInf ''ATR'') (\<lambda>_.
          (case ohlc data of
             None \<Rightarrow> Inl TypeError
           | Some c \<Rightarrow>
               if js_lt rt (high c) (low c)
               then Inl (Error ''Invalid OHLC: High must be >= Low'')
               else if js_le rt (open c) (Num (Fin 0)) \<or> js_le rt (high c) (Num (Fin 0))
                       \<or> js_le rt (low c) (Num (Fin 0)) \<or> js_le rt (close c) (Num (Fin 0))
               then Inl (Error ''Invalid OHLC: Prices must be positive'')
               else Inr ())))))"


text \<open>The trading constants of part_000, lines 5-16.\<close>

definition TRADABLE_ATR :: jsnum where "TRADABLE_ATR = Fin (2 / 1000)"
definition STRONG_VOLUME_RATIO :: jsnum where "STRONG_VOLUME_RATIO = Fin (15 / 10)"
definition STRONG_ADX :: jsnum where "STRONG_ADX = Fin 20"
definition ASIA_SESSION_ADX :: jsnum where "ASIA_SESSION_ADX = Fin 28"
definition ASIA_SESSION_VOLUME :: jsnum where "ASIA_SESSION_VOLUME = Fin 2"
definition SUPPORT_RESISTANCE_DISTANCE_ATR :: jsnum where
  "SUPPORT_RESISTANCE_DISTANCE_ATR = Fin (15 / 10)"
definition MACD_HISTOGRAM_MIN_CHANGE :: jsnum where
  "MACD_HISTOGRAM_MIN_CHANGE = Fin (1 / 10000)"
definition VALID_PATTERNS :: "string list" where
  "VALID_PATTERNS =
     [''bullish engulfing'', ''bearish engulfing'', ''hammer'', ''shooting star'',
      ''double top'', ''double bottom'']"

text \<open>\<^verbatim>\<open>TradingAI.getSessionType\<close> (part_000, lines 191-195).\<close>

definition getSessionType :: "nat \<Rightarrow> string" where
  "getSessionType hourUTC =
     (if hourUTC \<ge> 2 \<and> hourUTC < 5 then ''ASIA''
      else if (hourUTC \<ge> 8 \<and> hourUTC < 12) \<or> (hourUTC \<ge> 14 \<and> hourUTC < 17) then ''OVERLAP''
      else ''REGULAR'')"

text \<open>
  \<^verbatim>\<open>TradingAI.calculateDerivedValues\<close> (part_000, lines 67-89). The hour of the clock is an
  argument. Reading a property of an absent \<open>ohlc\<close> or \<open>indicators\<close>, and calling
  \<^verbatim>\<open>toLowerCase\<close> on a pattern that is not a string, throw a type error.
\<close>

record derived =
  price :: jsval
  hourUTC :: nat
  sessionType :: string
  macdHistCurrent :: jsval
  isMacdRising :: bool
  supportDistanceATR :: jsval
  resistanceDistanceATR :: jsval
  isNearSupport :: bool
  isNearResistance :: bool
  isValidPattern :: bool
  trend :: string
  momentum :: string
  macdTrend :: string

definition calculateDerivedValues ::
  "runtime \<Rightarrow> nat \<Rightarrow> dataA \<Rightarrow> jsval \<Rightarrow> error + derived" where
  "calculateDerivedValues rt hour data macd_hist_prev' =
     (case (ohlc data, indicators data, pattern data) of
        (Some c, Some ind, Str pat) \<Rightarrow>
          Inr \<lparr>price = close c,
               hourUTC = hour,
               sessionType = getSessionType hour,
               macdHistCurrent = js_sub rt (macd ind) (macd_signal ind),
               isMacdRising =
                 js_gt rt (js_sub rt (macd ind) (macd_signal ind))
                   (js_add rt macd_hist_prev' (Num MACD_HISTOGRAM_MIN_CHANGE)),
               supportDistanceATR = js_div rt (js_sub rt (close c) (support data)) (atr data),
               resistanceDistanceATR =
                 js_div rt (js_sub rt (resistance data) (close c)) (atr data),
               isNearSupport =
                 js_le rt (js_div rt (js_sub rt (close c) (support data)) (atr data))
                   (Num SUPPORT_RESISTANCE_DISTANCE_ATR),
               isNearResistance =
                 js_le rt (js_div rt (js_sub rt (resistance data) (close c)) (atr data))
                   (Num SUPPORT_RESISTANCE_DISTANCE_ATR),
               isValidPattern = (toLowerCase pat \<in> set VALID_PATTERNS),
               trend =
                 (if js_gt rt (ema9 ind) (ema21 ind) then ''bullish''
                  else if js_lt rt (ema9 ind) (ema21 ind) then ''bearish'' else ''neutral''),
               momentum =
                 (if js_gt rt (rsi ind) (Num (Fin 70)) then ''overbought''
                  else if js_lt rt (rsi ind) (Num (Fin 30)) then ''oversold'' else ''neutral''),
               macdTrend =
                 (if js_gt rt (macd ind) (macd_signal ind) then ''bullish'' else ''bearish'')\<rparr>
      | _ \<Rightarrow> Inl TypeError)"

section \<open>Signal Filter\<close>

text \<open>
  \<^verbatim>\<open>filterSignal\<close> (index.js, lines 91-116). \<open>higherTF\<close> is \<open>None\<close> when the object is absent.
  A template literal converts the explanation to a string; for a value parsed from JSON this
  throws exactly when an object carries a property named \<^verbatim>\<open>toString\<close>.
\<close>

record higherTF =
  h1Trend :: jsval
  d1Trend :: jsval

fun json_ToString :: "runtime \<Rightarrow> json \<Rightarrow> error + string"
  and join_elements :: "runtime \<Rightarrow> json list \<Rightarrow> error + string"
  and element_ToString :: "runtime \<Rightarrow> json \<Rightarrow> error + string" where
  "json_ToString rt (Prim v) = Inr (ToString rt v)"
| "json_ToString rt (Obj kvs) =
     (if ''toString'' \<in> fst ` set kvs then Inl TypeError else Inr ''[object Object]'')"
| "json_ToString rt (Arr xs) = join_elements rt xs"
| "join_elements rt [] = Inr []"
| "join_elements rt [x] = element_ToString rt x"
| "join_elements rt (x # y # ys) =
     (case element_ToString rt x of
        Inl e \<Rightarrow> Inl e
      | Inr a \<Rightarrow>
         (case join_elements rt (y # ys) of Inl e \<Rightarrow> Inl e | Inr b \<Rightarrow> Inr (a @ '','' @ b)))"
| "element_ToString rt (Prim Undefined) = Inr []"
| "element_ToString rt (Prim Null) = Inr []"
| "element_ToString rt v = json_ToString rt v"

definition rejected :: "runtime \<Rightarrow> signalB \<Rightarrow> string \<Rightarrow> error + signalB" where
  "rejected rt parsedSignal note =
     (case json_ToString rt (explanationB parsedSignal) of
        Inl e \<Rightarrow> Inl e
      | Inr ex \<Rightarrow>
          Inr (parsedSignal\<lparr>signalB := ''hold'', confidenceB := Prim (Str ''low''),
                            explanationB := Prim (Str (ex @ note))\<rparr>))"

definition filterSignal ::
  "runtime \<Rightarrow> signalB \<Rightarrow> indicators option \<Rightarrow> jsval \<Rightarrow> jsval \<Rightarrow> higherTF option
     \<Rightarrow> error + signalB" where
  "filterSignal rt parsedSignal indicators' volume avgVolume higherTF' =
     (case (if signalB parsedSignal = ''buy''
            then (case higherTF' of
                    None \<Rightarrow> Inl TypeError
                  | Some h \<Rightarrow> Inr (strict_eq (d1Trend h) (Str ''strong bearish'')))
            else Inr False) of
        Inl e \<Rightarrow> Inl e
      | Inr againstTrend \<Rightarrow>
          if againstTrend
          then rejected rt parsedSignal '' (Rejected: Against D1 strong trend)''
          else
           (case (if signalB parsedSignal = ''buy'' \<or> signalB parsedSignal = ''sell''
                  then (case indicators' of
                          None \<Rightarrow> Inl TypeError
                        | Some ind \<Rightarrow>
                            Inr ((signalB parsedSignal = ''buy''
                                    \<and> js_gt rt (rsi ind) (Num (Fin 70))
                                    \<and> js_lt rt volume (js_mul rt avgVolume (Num (Fin (12 / 10)))))
                                 \<or> (signalB parsedSignal = ''sell''
                                    \<and> js_lt rt (rsi ind) (Num (Fin 30))
                                    \<and> js_lt rt volume
                                          (js_mul rt avgVolume (Num (Fin (12 / 10)))))))
                  else Inr False) of
              Inl e \<Rightarrow> Inl e
            | Inr extremeRSI \<Rightarrow>
                if extremeRSI
                then rejected rt parsedSignal
                       '' (Rejected: Extreme RSI without volume confirmation)''
                else Inr parsedSignal))"

section \<open>Prompt Builder\<close>

text \<open>
  A template literal is the sequence of its fixed chunks and of its substitutions. The model
  keeps this sequence, each piece with its origin, and the text of the prompt is the
  concatenation of the pieces. A substitution that throws (\<^verbatim>\<open>toFixed\<close> called on a value
  that is not a number) makes the whole template throw. Code units of the fixed text at or
  above 256 (arrows, comparison signs, pictographs) are each written as the one-character
  string \<open>wide\<close>; none of them is a delimiter of \<open>promptDelimiters\<close>.
\<close>

datatype origin = Template | FromSymbol | FromPattern | FromData

type_synonym piece = "origin \<times> string"

definition wide :: string where
  "wide = [CHR 0x1A]"

fun assemble :: "(origin \<times> (error + string)) list \<Rightarrow> error + piece list" where
  "assemble [] = Inr []"
| "assemble ((orig, Inl e) # ps) = Inl e"
| "assemble ((orig, Inr s) # ps) =
     (case assemble ps of Inl e \<Rightarrow> Inl e | Inr r \<Rightarrow> Inr ((orig, s) # r))"


definition toFixed :: "runtime \<Rightarrow> jsval \<Rightarrow> nat \<Rightarrow> error + string" where
  "toFixed rt v digits =
     (case v of Num n \<Rightarrow> Inr (Number_toFixed rt n digits) | _ \<Rightarrow> Inl TypeError)"

text \<open>\<^verbatim>\<open>TradingAI.buildAIPrompt\<close> (part_000, lines 91-145).\<close>

definition buildAIPrompt :: "runtime \<Rightarrow> dataA \<Rightarrow> derived \<Rightarrow> error + piece list" where
  "buildAIPrompt rt data d =
     (case indicators data of
        None \<Rightarrow> Inl TypeError
      | Some ind \<Rightarrow> assemble
     [(Template, Inr (''\<newline>'')),
      (Template, Inr (''You are an expert algorithmic trader. Respond ONLY in valid JSON:\<newline>'')),
      (Template, Inr (''{\"signal\": \"buy|sell|hold\", \"explanation\": \"short reason with data\"}\<newline>'')),
      (Template, Inr (''\<newline>'')),
      (Template, Inr (wide @ wide @ '' STRICT TRADING RULES (VIOLATION = HOLD):\<newline>'')),
      (Template, Inr (''1. Trend Strength:\<newline>'')),
      (Template, Inr (''   - ADX < '')),
      (Template, Inr (NumberToString rt STRONG_ADX)),
      (Template, Inr ('' '' @ wide @ '' HOLD (weak trend)\<newline>'')),
      (Template, Inr (''   - Asia Session? ADX must > '')),
      (Template, Inr (NumberToString rt ASIA_SESSION_ADX)),
      (Template, Inr ('' & volume_ratio > '')),
      (Template, Inr (NumberToString rt ASIA_SESSION_VOLUME)),
      (Template, Inr (''\<newline>'')),
      (Template, Inr (''\<newline>'')),
      (Template, Inr (''2. Momentum Filter:\<newline>'')),
      (Template, Inr (''   - RSI > 70 + Bullish '' @ wide @ '' HOLD (overbought)\<newline>'')),
      (Template, Inr (''   - RSI < 30 + Bearish '' @ wide @ '' HOLD (oversold)\<newline>'')),
      (Template, Inr (''\<newline>'')),
      (Template, Inr (''3. Volume Confirmation:\<newline>'')),
      (Template, Inr (''   - volume_ratio < '')),
      (Template, Inr (NumberToString rt STRONG_VOLUME_RATIO)),
      (Template, Inr ('' '' @ wide @ '' HOLD (weak)\<newline>'')),
      (Template, Inr (''   - Asia Session: volume_ratio must > '')),
      (Template, Inr (NumberToString rt ASIA_SESSION_VOLUME)),
      (Template, Inr (''\<newline>'')),
      (Template, Inr (''\<newline>'')),
      (Template, Inr (''4. MACD Requirements:\<newline>'')),
      (Template, Inr (''   - Buy: Histogram RISING (current > previous by '')),
      (Template, Inr (NumberToString rt MACD_HISTOGRAM_MIN_CHANGE)),
      (Template, Inr ('')\<newline>'')),
      (Template, Inr (''   - Sell: Histogram FALLING (current < previous by '')),
      (Template, Inr (NumberToString rt MACD_HISTOGRAM_MIN_CHANGE)),
      (Template, Inr ('')\<newline>'')),
      (Template, Inr (''\<newline>'')),
      (Template, Inr (''5. Price Position:\<newline>'')),
      (Template, Inr (''   - Near Support ('' @ wide)),
      (Template, Inr (NumberToString rt SUPPORT_RESISTANCE_DISTANCE_ATR)),
      (Template, Inr (''x ATR) + Valid Bullish Pattern '' @ wide @ '' Strong Buy\<newline>'')),
      (Template, Inr (''   - Near Resistance ('' @ wide)),
      (Template, Inr (NumberToString rt SUPPORT_RESISTANCE_DISTANCE_ATR)),
      (Template, Inr (''x ATR) + Valid Bearish Pattern '' @ wide @ '' Strong Sell\<newline>'')),
      (Template, Inr (''\<newline>'')),
      (Template, Inr (''6. Session Constraints:\<newline>'')),
      (Template, Inr (''   - ASIA (2-5 UTC): Extra strict rules\<newline>'')),
      (Template, Inr (''   - OVERLAP (8-12/14-17 UTC): Higher ATR allowed\<newline>'')),
      (Template, Inr (''   - REGULAR: Standard rules\<newline>'')),
      (Template, Inr (''\<newline>'')),
      (Template, Inr (wide @ wide @ '' FINAL DECISION:\<newline>'')),
      (Template, Inr (''- Jika SEMUA kondisi terpenuhi '' @ wide @ '' Berikan sinyal\<newline>'')),
      (Template, Inr (''- Jika ADA 1 saja yang gagal '' @ wide @ '' HOLD\<newline>'')),
      (Template, Inr (''- JANGAN menebak!\<newline>'')),
      (Template, Inr (''\<newline>'')),
      (Template, Inr (''ANALYSIS:\<newline>'')),
      (Template, Inr (''- Symbol: '')),
      (FromSymbol, Inr (sanitizeForPrompt rt (symbol data))),
      (Template, Inr ('', TF: '')),
      (FromData, Inr (ToString rt (tf data))),
      (Template, Inr ('', Session: '')),
      (FromData, Inr (sessionType d)),
      (Template, Inr (''\<newline>'')),
      (Template, Inr (''- Price: '')),
      (FromData, toFixed rt (price d) 5),
      (Template, Inr ('' (Support: '')),
      (FromData, toFixed rt (support data) 5),
      (Template, Inr ('', Resistance: '')),
      (FromData, toFixed rt (resistance data) 5),
      (Template, Inr ('')\<newline>'')),
      (Template, Inr (''- Trend: EMA9('')),
      (FromData, toFixed rt (ema9 ind) 5),
      (Template, Inr ('') '')),
      (FromData, Inr (trend d)),
      (Template, Inr ('' vs EMA21('')),
      (FromData, toFixed rt (ema21 ind) 5),
      (Template, Inr ('')\<newline>'')),
      (Template, Inr (''- Momentum: RSI('')),
      (FromData, toFixed rt (rsi ind) 2),
      (Template, Inr ('') = '')),
      (FromData, Inr (momentum d)),
      (Template, Inr (''\<newline>'')),
      (Template, Inr (''- MACD: '')),
      (FromData, toFixed rt (macd ind) 5),
      (Template, Inr ('' vs Signal('')),
      (FromData, toFixed rt (macd_signal ind) 5),
      (Template, Inr ('') '' @ wide @ '' '')),
      (FromData, Inr (macdTrend d)),
      (Template, Inr (''\<newline>'')),
      (Template, Inr (''  Histogram: Current='')),
      (FromData, toFixed rt (macdHistCurrent d) 5),
      (Template, Inr ('', Previous='')),
      (FromData, toFixed rt (macd_hist_prev data) 5),
      (Template, Inr ('' '' @ wide @ '' '')),
      (FromData, Inr (if isMacdRising d then ''RISING'' else ''FALLING'')),
      (Template, Inr (''\<newline>'')),
      (Template, Inr (''- ADX: '')),
      (FromData, toFixed rt (adx data) 2),
      (Template, Inr ('' ('' @ wide)),
      (Template, Inr (NumberToString rt STRONG_ADX)),
      (Template, Inr ('' = strong)\<newline>'')),
      (Template, Inr (''- ATR: '')),
      (FromData, toFixed rt (atr data) 5),
      (Template, Inr ('' ('' @ wide)),
      (Template, Inr (NumberToString rt TRADABLE_ATR)),
      (Template, Inr ('' = tradable)\<newline>'')),
      (Template, Inr (''- Volume Ratio: '')),
      (FromData, toFixed rt (volume_ratio data) 2),
      (Template, Inr ('' ('' @ wide)),
      (Template, Inr (NumberToString rt STRONG_VOLUME_RATIO)),
      (Template, Inr ('' = strong)\<newline>'')),
      (Template, Inr (''- Pattern: '')),
      (FromPattern, Inr (ToString rt (pattern data))),
      (Template, Inr ('' '')),
      (FromData, Inr (if isValidPattern d then ''(VALID)'' else ''(INVALID '' @ wide @ '' HOLD)'')),
      (Template, Inr (''\<newline>'')),
      (Template, Inr (''- Position:\<newline>'')),
      (Template, Inr (''  - Support: '')),
      (FromData, Inr (if isNearSupport d then ''NEAR'' else ''FAR'')),
      (Template, Inr ('' ('')),
      (FromData, toFixed rt (supportDistanceATR d) 1),
      (Template, Inr (''x ATR)\<newline>'')),
      (Template, Inr (''  - Resistance: '')),
      (FromData, Inr (if isNearResistance d then ''NEAR'' else ''FAR'')),
      (Template, Inr ('' ('')),
      (FromData, toFixed rt (resistanceDistanceATR d) 1),
      (Template, Inr (''x ATR)\<newline>'')),
      (Template, Inr (''\<newline>'')),
      (Template, Inr (''Respond in strict JSON only. No extra text. Example:\<newline>'')),
      (Template, Inr (''{\"signal\":\"buy\",\"explanation\":\"bullish trend (ADX 26), MACD rising, volume'')),
      (Template, Inr ('' strong, price at support with bullish engulfing\"}\<newline>'')),
      (Template, Inr (''    ''))])"

section \<open>Model Gateway\<close>












section \<open>Request Orchestrator of variant A\<close>

text \<open>
  An inbound request: its method, the value of the header \<^verbatim>\<open>x-api-key\<close> (\<open>None\<close> when the
  header is missing) and its body (\<open>None\<close> when \<^verbatim>\<open>request.json()\<close> throws).
\<close>

record 'b request =
  "method" :: string
  x_api_key :: "string option"
  body :: "'b option"

datatype 'sig content =
    ErrorBody string
  | TextBody string
  | ProcessingFailed error
  | SignalBody 'sig

record 'sig response =
  status :: nat
  content :: "'sig content"

definition createResponse :: "nat \<Rightarrow> 'sig content \<Rightarrow> 'sig response" where
  "createResponse st b = \<lparr>status = st, content = b\<rparr>"


text \<open>\<^verbatim>\<open>TradingWorker.parseRequest\<close> (part_000, lines 343-368): the first required field
  that is missing or falsy is reported.\<close>

definition requiredFields :: "dataA \<Rightarrow> (string \<times> bool) list" where
  "requiredFields bodyJson =
     [(''symbol'', truthy (symbol bodyJson)), (''tf'', truthy (tf bodyJson)),
      (''ohlc'', ohlc bodyJson \<noteq> None), (''indicators'', indicators bodyJson \<noteq> None),
      (''adx'', truthy (adx bodyJson)), (''atr'', truthy (atr bodyJson)),
      (''volume_ratio'', truthy (volume_ratio bodyJson)),
      (''pattern'', truthy (pattern bodyJson)), (''session'', truthy (session bodyJson)),
      (''support'', truthy (support bodyJson)), (''resistance'', truthy (resistance bodyJson))]"

definition parseRequest :: "dataA request \<Rightarrow> signalA response + dataA" where
  "parseRequest request =
     (case body request of
        None \<Rightarrow> Inl (createResponse 400 (ErrorBody ''Invalid JSON''))
      | Some bodyJson \<Rightarrow>
         (case filter (\<lambda>(field, present). \<not> present) (requiredFields bodyJson) of
            (field, present) # rest \<Rightarrow> Inl (createResponse 400 (ErrorBody (''Missing '' @ field)))
          | [] \<Rightarrow> Inr bodyJson))"








section \<open>Variant B: gateway, notifier and orchestrator of index.js\<close>

record keyLevels =
  s1 :: jsval
  r1 :: jsval

record marketContext =
  ctx_session :: jsval
  volatility :: jsval

text \<open>The request body of variant B. The field \<^verbatim>\<open>prevCandles\<close> is passed on and never
  read, and is left out.\<close>

record requestData =
  symbolB :: jsval
  timeframe :: jsval
  ohlcB :: "ohlc option"
  indicatorsB :: "indicators option"
  volume :: jsval
  avgVolume :: jsval
  keyLevels :: "keyLevels option"
  higherTF :: "higherTF option"
  marketContext :: "marketContext option"

definition keyLevel :: "runtime \<Rightarrow> keyLevels option \<Rightarrow> (keyLevels \<Rightarrow> jsval) \<Rightarrow> error + string" where
  "keyLevel rt levels field =
     (case levels of None \<Rightarrow> Inl TypeError | Some l \<Rightarrow> Inr (ToString rt (field l)))"

definition trendOf :: "runtime \<Rightarrow> higherTF option \<Rightarrow> (higherTF \<Rightarrow> jsval) \<Rightarrow> error + string" where
  "trendOf rt higher field =
     (case higher of None \<Rightarrow> Inl TypeError | Some h \<Rightarrow> Inr (ToString rt (field h)))"

definition contextOf ::
  "runtime \<Rightarrow> marketContext option \<Rightarrow> (marketContext \<Rightarrow> jsval) \<Rightarrow> error + string" where
  "contextOf rt context' field =
     (case context' of None \<Rightarrow> Inl TypeError | Some m \<Rightarrow> Inr (ToString rt (field m)))"

text \<open>The prompt of \<^verbatim>\<open>callAI\<close> in index.js (lines 18-36), built once the validator has
  accepted the candle \<open>c\<close> and the indicators \<open>ind\<close>.\<close>

definition userContent ::
  "runtime \<Rightarrow> jsval \<Rightarrow> jsval \<Rightarrow> ohlc \<Rightarrow> indicators \<Rightarrow> jsval \<Rightarrow> jsval \<Rightarrow> keyLevels option
     \<Rightarrow> higherTF option \<Rightarrow> marketContext option \<Rightarrow> error + piece list" where
  "userContent rt symbol' tf' c ind volume' avgVolume' keyLevels' higherTF' marketContext' =
     assemble
     [(Template, Inr (''Act as a professional trading analyst. Strictly follow these rules in JSON'')),
      (Template, Inr ('' response:\<newline>'')),
      (Template, Inr (''  1. Trend Alignment: Never contradict higher timeframe trend (H1/D1).\<newline>'')),
      (Template, Inr (''  2. Overbought/Oversold: RSI >70 = caution long, <30 = caution short.\<newline>'')),
      (Template, Inr (''  3. Volume Confirmation: Spike >1.5x avg volume strengthens signals.\<newline>'')),
      (Template, Inr (''  4. MACD Cross: Bullish when MACD > Signal, bearish when MACD < Signal.\<newline>'')),
      (Template, Inr (''  5. Price Action: Rejections at S/R levels are high-probability signals.\<newline>'')),
      (Template, Inr (''\<newline>'')),
      (Template, Inr (''  Current Analysis:\<newline>'')),
      (Template, Inr (''  - Symbol: '')),
      (FromSymbol, Inr (ToString rt symbol')),
      (Template, Inr ('' ('')),
      (FromData, Inr (ToString rt (tf'))),
      (Template, Inr ('')\<newline>'')),
      (Template, Inr (''  - Price: O='')),
      (FromData, Inr (ToString rt (open c))),
      (Template, Inr ('' H='')),
      (FromData, Inr (ToString rt (high c))),
      (Template, Inr ('' L='')),
      (FromData, Inr (ToString rt (low c))),
      (Template, Inr ('' C='')),
      (FromData, Inr (ToString rt (close c))),
      (Template, Inr (''\<newline>'')),
      (Template, Inr (''  - EMA Cross: '')),
      (FromData, Inr (if js_gt rt (ema9 ind) (ema21 ind) then ''Bullish'' else ''Bearish'')),
      (Template, Inr (''\<newline>'')),
      (Template, Inr (''  - RSI: '')),
      (FromData, Inr (ToString rt (rsi ind))),
      (Template, Inr ('' ('')),
      (FromData, Inr (if js_gt rt (rsi ind) (Num (Fin 70)) then ''Overbought''
        else if js_lt rt (rsi ind) (Num (Fin 30)) then ''Oversold'' else ''Neutral'')),
      (Template, Inr ('')\<newline>'')),
      (Template, Inr (''  - MACD: '')),
      (FromData, Inr (ToString rt (macd ind))),
      (Template, Inr ('' (Signal: '')),
      (FromData, Inr (ToString rt (macd_signal ind))),
      (Template, Inr ('') '' @ wide @ '' '')),
      (FromData, Inr (if js_gt rt (macd ind) (macd_signal ind) then ''Bullish'' else ''Bearish'')),
      (Template, Inr (''\<newline>'')),
      (Template, Inr (''  - Volume: '')),
      (FromData, Inr (ToString rt (volume'))),
      (Template, Inr ('' (Avg: '')),
      (FromData, Inr (ToString rt (avgVolume'))),
      (Template, Inr ('') '' @ wide @ '' '')),
      (FromData, Inr (if js_gt rt volume' (js_mul rt avgVolume' (Num (Fin (15 / 10)))) then ''HIGH'' else ''Normal'')),
      (Template, Inr (''\<newline>'')),
      (Template, Inr (''  - Key Levels: Support='')),
      (FromData, keyLevel rt keyLevels' s1),
      (Template, Inr ('', Resistance='')),
      (FromData, keyLevel rt keyLevels' r1),
      (Template, Inr (''\<newline>'')),
      (Template, Inr (''  - Higher TF: H1='')),
      (FromData, trendOf rt higherTF' h1Trend),
      (Template, Inr ('', D1='')),
      (FromData, trendOf rt higherTF' d1Trend),
      (Template, Inr (''\<newline>'')),
      (Template, Inr (''  - Market: '')),
      (FromData, contextOf rt marketContext' ctx_session),
      (Template, Inr ('' session, '')),
      (FromData, contextOf rt marketContext' volatility),
      (Template, Inr ('' volatility\<newline>'')),
      (Template, Inr (''\<newline>'')),
      (Template, Inr (''  Provide JSON response: { \"signal\": \"buy/sell/hold\", \"confidence\":'')),
      (Template, Inr ('' \"high/medium/low\", \"explanation\": \"...\" }''))]"













section \<open>Ranges of the data model\<close>

text \<open>
  The ranges in which the specification states the claims about the validator: a value is
  within a range when it is a number between the two bounds, and non-negative when it is a
  number that is zero, positive or positive infinity.
\<close>

fun withinRange :: "jsval \<Rightarrow> real \<Rightarrow> real \<Rightarrow> bool" where
  "withinRange (Num (Fin x)) lo hi = (lo \<le> x \<and> x \<le> hi)"
| "withinRange (Num NZero) lo hi = (lo \<le> 0 \<and> 0 \<le> hi)"
| "withinRange v lo hi = False"

fun nonNegative :: "jsval \<Rightarrow> bool" where
  "nonNegative (Num (Fin x)) = (0 \<le> x)"
| "nonNegative (Num NZero) = True"
| "nonNegative (Num PInf) = True"
| "nonNegative v = False"

section \<open>Concrete inputs\<close>

text \<open>
  The evaluations at concrete inputs use a runtime whose JSON parser knows the texts of a
  table and throws on any other text. Its conversion of a number to a string is right for
  the three numbers that occur in the messages of the validator (0, 100 and infinity) and
  gives \<open>0\<close> for any other number; its other conversions return a fixed value.
\<close>

definition tableRuntime :: "(string \<times> json) list \<Rightarrow> runtime" where
  "tableRuntime replies =
     \<lparr>JSON_parse = map_of replies, JSON_stringify = (\<lambda>j. ''{}''),
      StringToNumber = (\<lambda>s. NaN),
      NumberToString =
        (\<lambda>n. if n = Fin 100 then ''100'' else if n = PInf then ''Infinity'' else ''0''),
      Number_toFixed = (\<lambda>n digits. ''0'')\<rparr>"

definition numbers :: "real \<Rightarrow> real \<Rightarrow> real \<Rightarrow> indicators" where
  "numbers e9 e21 r =
     \<lparr>rsi = Num (Fin r), ema9 = Num (Fin e9), ema21 = Num (Fin e21), macd = Num (Fin 0),
      macd_signal = Num (Fin 0)\<rparr>"



text \<open>Replies that parse and lack a usable signal.\<close>

definition shapelessReplies :: "(string \<times> json) list" where
  "shapelessReplies =
     [(''{\"explanation\":\"x\"}'', Obj [(''explanation'', Prim (Str ''x''))]),
      (''{\"signal\":\"maybe\"}'', Obj [(''signal'', Prim (Str ''maybe''))])]"

text \<open>A reply whose explanation has 501 characters.\<close>

definition longExplanation :: string where
  "longExplanation = replicate 501 (CHR ''a'')"

definition longReply :: string where
  "longReply = ''{\"signal\":\"buy\",\"explanation\":\"'' @ longExplanation @ ''\"}''"

definition longReplyParsed :: "string \<times> json" where
  "longReplyParsed =
     (longReply,
      Obj [(''signal'', Prim (Str ''buy'')), (''explanation'', Prim (Str longExplanation))])"

text \<open>A sell signal, and a higher-timeframe context whose daily trend is strongly bullish;
  a buy signal, and a context whose daily trend is strongly bearish.\<close>

definition sellSignal :: signalB where
  "sellSignal =
     \<lparr>signalB = ''sell'', confidenceB = Prim (Str ''high''), explanationB = Prim (Str ''x'')\<rparr>"

definition buySignal :: signalB where
  "buySignal =
     \<lparr>signalB = ''buy'', confidenceB = Prim (Str ''high''), explanationB = Prim (Str ''x'')\<rparr>"

definition strongBullish :: higherTF where
  "strongBullish = \<lparr>h1Trend = Str ''bullish'', d1Trend = Str ''strong bullish''\<rparr>"

definition strongBearish :: higherTF where
  "strongBearish = \<lparr>h1Trend = Str ''bearish'', d1Trend = Str ''strong bearish''\<rparr>"

text \<open>A candle and a request body of variant A with numeric fields throughout, and the same
  body with a MACD value that is a text.\<close>

definition plainCandle :: ohlc where
  "plainCandle =
     \<lparr>open = Num (Fin 100), high = Num (Fin 110), low = Num (Fin 90), close = Num (Fin 105)\<rparr>"

definition plainData :: dataA where
  "plainData =
     \<lparr>symbol = Str ''EURUSD'', tf = Str ''H1'', ohlc = Some plainCandle,
      indicators = Some (numbers 12 11 50), adx = Num (Fin 25), atr = Num (Fin 2),
      volume_ratio = Num (Fin 2), pattern = Str ''Hammer'', session = Str ''london'',
      support = Num (Fin 95), resistance = Num (Fin 120), macd_hist_prev = Num (Fin 0)\<rparr>"



text \<open>The body of variant A with an ATR of zero, and with a support equal to the close and a
  resistance below it.\<close>

definition zeroAtrData :: dataA where
  "zeroAtrData = plainData\<lparr>atr := Num (Fin 0)\<rparr>"

definition zeroAtrData' :: dataA where
  "zeroAtrData' = plainData\<lparr>atr := Num NZero, support := Num (Fin 105)\<rparr>"

definition zeroAtrDerived :: derived where
  "zeroAtrDerived =
     \<lparr>price = Num (Fin 105), hourUTC = 10, sessionType = ''OVERLAP'',
      macdHistCurrent = Num (Fin 0), isMacdRising = False,
      supportDistanceATR = Num PInf, resistanceDistanceATR = Num PInf,
      isNearSupport = False, isNearResistance = False, isValidPattern = True,
      trend = ''bullish'', momentum = ''neutral'', macdTrend = ''bearish''\<rparr>"

definition zeroAtrDerived' :: derived where
  "zeroAtrDerived' =
     zeroAtrDerived\<lparr>supportDistanceATR := Num NaN, resistanceDistanceATR := Num NInf,
       isNearResistance := True\<rparr>"

text \<open>A body of variant A whose pattern label holds a brace, with its derived values at
  hour 10, and the arguments of the prompt of variant B for a symbol that holds a brace.\<close>

definition bracePatternData :: dataA where
  "bracePatternData = plainData\<lparr>pattern := Str ''hammer{''\<rparr>"

definition braceDerived :: derived where
  "braceDerived =
     \<lparr>price = Num (Fin 105), hourUTC = 10, sessionType = ''OVERLAP'',
      macdHistCurrent = Num (Fin 0), isMacdRising = False,
      supportDistanceATR = Num (Fin 5), resistanceDistanceATR = Num (Fin (15 / 2)),
      isNearSupport = False, isNearResistance = False, isValidPattern = False,
      trend = ''bullish'', momentum = ''neutral'', macdTrend = ''bearish''\<rparr>"

definition plainLevels :: keyLevels where
  "plainLevels = \<lparr>s1 = Num (Fin 95), r1 = Num (Fin 120)\<rparr>"

definition plainContext :: marketContext where
  "plainContext = \<lparr>ctx_session = Str ''london'', volatility = Str ''normal''\<rparr>"

definition taggedSymbolData :: dataA where
  "taggedSymbolData = plainData\<lparr>symbol := Str ''EUR<USD>''\<rparr>"

definition plainDerived :: derived where
  "plainDerived = braceDerived\<lparr>isValidPattern := True\<rparr>"















section \<open>Properties of the comparisons\<close>

lemma num_lt_asym: "num_lt a b \<Longrightarrow> \<not> num_lt b a"
  by (cases a; cases b) auto

lemma str_lt_asym: "str_lt s t \<Longrightarrow> \<not> str_lt t s"
  by (induction s t rule: str_lt.induct) auto

lemma js_lt_asym: "js_lt rt a b \<Longrightarrow> \<not> js_lt rt b a"
  by (cases a; cases b) (auto dest: num_lt_asym str_lt_asym)

section \<open>Fallback Signal Generator\<close>

text \<open>
  Claim C8. The Fallback Signal Generator is a function of the three values \<open>ema9\<close>,
  \<open>ema21\<close> and \<open>rsi\<close> alone (it has no access to an endpoint): for every triple it returns
  one of buy, sell and hold; it returns buy when \<open>ema9 > ema21\<close> and \<open>rsi < 70\<close>, sell when
  \<open>ema9 < ema21\<close> and \<open>rsi > 30\<close>, and hold in every other case.
\<close>

theorem generateFallbackSignal_rule:
  "signal (generateFallbackSignal rt ind) \<in> {''buy'', ''sell'', ''hold''}
   \<and> (js_gt rt (ema9 ind) (ema21 ind) \<and> js_lt rt (rsi ind) (Num (Fin 70))
        \<longrightarrow> signal (generateFallbackSignal rt ind) = ''buy'')
   \<and> (js_lt rt (ema9 ind) (ema21 ind) \<and> js_gt rt (rsi ind) (Num (Fin 30))
        \<longrightarrow> signal (generateFallbackSignal rt ind) = ''sell'')
   \<and> (\<not> (js_gt rt (ema9 ind) (ema21 ind) \<and> js_lt rt (rsi ind) (Num (Fin 70)))
        \<and> \<not> (js_lt rt (ema9 ind) (ema21 ind) \<and> js_gt rt (rsi ind) (Num (Fin 30)))
        \<longrightarrow> signal (generateFallbackSignal rt ind) = ''hold'')"
  using js_lt_asym [of rt "ema9 ind" "ema21 ind"]
  by (auto simp: generateFallbackSignal_def js_gt_def)

theorem generateFallbackSignal_rule_witness:
  "(js_gt (tableRuntime []) (ema9 (numbers 12 11 50)) (ema21 (numbers 12 11 50))
      \<and> js_lt (tableRuntime []) (rsi (numbers 12 11 50)) (Num (Fin 70))
      \<and> signal (generateFallbackSignal (tableRuntime []) (numbers 12 11 50)) = ''buy'')
   \<and> (js_lt (tableRuntime []) (ema9 (numbers 11 12 50)) (ema21 (numbers 11 12 50))
      \<and> js_gt (tableRuntime []) (rsi (numbers 11 12 50)) (Num (Fin 30))
      \<and> signal (generateFallbackSignal (tableRuntime []) (numbers 11 12 50)) = ''sell'')
   \<and> (\<not> (js_gt (tableRuntime []) (ema9 (numbers 12 11 80)) (ema21 (numbers 12 11 80))
           \<and> js_lt (tableRuntime []) (rsi (numbers 12 11 80)) (Num (Fin 70)))
      \<and> \<not> (js_lt (tableRuntime []) (ema9 (numbers 12 11 80)) (ema21 (numbers 12 11 80))
           \<and> js_gt (tableRuntime []) (rsi (numbers 12 11 80)) (Num (Fin 30)))
      \<and> signal (generateFallbackSignal (tableRuntime []) (numbers 12 11 80)) = ''hold'')"
  using generateFallbackSignal_rule [of "tableRuntime []" "numbers 12 11 50"]
        generateFallbackSignal_rule [of "tableRuntime []" "numbers 11 12 50"]
        generateFallbackSignal_rule [of "tableRuntime []" "numbers 12 11 80"]
  by (simp add: numbers_def js_gt_def)

section \<open>Response Interpreter\<close>

lemma generateFallbackSignal_empty:
  "generateFallbackSignal rt emptyIndicators =
     \<lparr>signal = ''hold'', explanation = ''Fallback: No clear trend''\<rparr>"
  by (simp add: generateFallbackSignal_def emptyIndicators_def js_gt_def)





text \<open>Texts without a backquote, and texts that neither start nor end with white space, are
  left as they are.\<close>

lemma take7_no_fence: "c \<noteq> CHR ''`'' \<Longrightarrow> take 7 (c # cs) \<noteq> ''```json''"
  by (cases cs) auto

lemma take3_no_fence: "c \<noteq> CHR ''`'' \<Longrightarrow> take 3 (c # cs) \<noteq> ''```''"
  by (cases cs) auto

lemma stripFences_Cons:
  "c \<noteq> CHR ''`'' \<Longrightarrow> stripFences (c # cs) = c # stripFences cs"
  using take7_no_fence [of c cs] take3_no_fence [of c cs]
  by (subst stripFences.simps) simp

lemma stripFences_plain: "CHR ''`'' \<notin> set s \<Longrightarrow> stripFences s = s"
proof (induction s)
  case Nil
  show ?case by (subst stripFences.simps) simp
next
  case (Cons c cs)
  then show ?case using stripFences_Cons [of c cs] by auto
qed

lemma trim_plain:
  assumes "s \<noteq> []" and "\<not> isWhiteSpace (hd s)" and "\<not> isWhiteSpace (last s)"
  shows "trim s = s"
proof -
  have keep_front: "dropWhile isWhiteSpace s = s"
    using assms by (simp add: dropWhile_eq_self_iff)
  have keep_back: "dropWhile isWhiteSpace (rev s) = rev s"
    using assms by (simp add: dropWhile_eq_self_iff hd_rev)
  show ?thesis by (simp add: trim_def keep_front keep_back)
qed

lemma cleaned_plain:
  assumes "CHR ''`'' \<notin> set s" and "s \<noteq> []" and "\<not> isWhiteSpace (hd s)"
    and "\<not> isWhiteSpace (last s)"
  shows "trim (stripFences s) = s"
  using assms by (simp add: stripFences_plain trim_plain)


lemma longReply_cleaned: "trim (stripFences longReply) = longReply"
  by (rule cleaned_plain) (simp_all add: longReply_def longExplanation_def isWhiteSpace_def)












text \<open>
  Claim C9. When the reply fails parsing or shape validation, variant A calls the fallback
  generator with the empty indicator set, not with the indicators of the request, so the
  result is hold with a fixed explanation whatever the request held; variant B returns its
  own fixed hold signal. Neither can return buy or sell for such a reply.
\<close>

theorem parse_failure_ignores_indicators:
  "(\<forall>e. tryParseAI_try rt (tryParseAI_cleaned text) = Inl e
        \<longrightarrow> tryParseAI rt text = generateFallbackSignal rt emptyIndicators
            \<and> tryParseAI rt text = \<lparr>signal = ''hold'', explanation = ''Fallback: No clear trend''\<rparr>)
   \<and> (\<forall>e. parseAIResponse_try rt reply = Inl e
        \<longrightarrow> parseAIResponse rt reply =
              \<lparr>signalB = ''hold'', confidenceB = Prim (Str ''low''),
               explanationB = Prim (Str ''Error parsing AI response'')\<rparr>)"
  by (simp add: tryParseAI_def parseAIResponse_def generateFallbackSignal_empty
        parseErrorSignal_def)

theorem parse_failure_ignores_indicators_witness:
  "tryParseAI_try (tableRuntime shapelessReplies) (tryParseAI_cleaned ''{\"signal\":\"maybe\"}'')
     = Inl (Error ''Invalid signal value'')
   \<and> tryParseAI (tableRuntime shapelessReplies) ''{\"signal\":\"maybe\"}''
       = \<lparr>signal = ''hold'', explanation = ''Fallback: No clear trend''\<rparr>
   \<and> parseAIResponse_try (tableRuntime shapelessReplies) (Prim (Str ''{\"explanation\":\"x\"}''))
       = Inl (Error ''Invalid signal value'')
   \<and> parseAIResponse (tableRuntime shapelessReplies) (Prim (Str ''{\"explanation\":\"x\"}''))
       = \<lparr>signalB = ''hold'', confidenceB = Prim (Str ''low''),
          explanationB = Prim (Str ''Error parsing AI response'')\<rparr>"
proof -
  have c1: "trim (stripFences ''{\"signal\":\"maybe\"}'') = ''{\"signal\":\"maybe\"}''"
    by (rule cleaned_plain) (simp_all add: isWhiteSpace_def)
  have c2: "trim (stripFences ''{\"explanation\":\"x\"}'') = ''{\"explanation\":\"x\"}''"
    by (rule cleaned_plain) (simp_all add: isWhiteSpace_def)
  have lower: "toLowerCase ''maybe'' = ''maybe''"
    by code_simp
  have t1: "tryParseAI_try (tableRuntime shapelessReplies)
              (tryParseAI_cleaned ''{\"signal\":\"maybe\"}'') = Inl (Error ''Invalid signal value'')"
    by (simp add: tryParseAI_cleaned_def c1 tryParseAI_try_def tableRuntime_def
          shapelessReplies_def lower signalNames_def)
  have t2: "parseAIResponse_try (tableRuntime shapelessReplies)
              (Prim (Str ''{\"explanation\":\"x\"}'')) = Inl (Error ''Invalid signal value'')"
    by (simp add: c2 parseAIResponse_try_def tableRuntime_def shapelessReplies_def)
  show ?thesis
    using parse_failure_ignores_indicators
      [of "tableRuntime shapelessReplies" "''{\"signal\":\"maybe\"}''"
          "Prim (Str ''{\"explanation\":\"x\"}'')"]
    by (simp add: t1 t2 generateFallbackSignal_empty)
qed

text \<open>
  Claim C5, as stated: in both variants a string explanation is cut to at most 500
  characters and an absent confidence defaults to medium. It fails in variant B, which
  returns an explanation of 501 characters as it is.
\<close>

theorem explanation_untruncated_counterexample:
  "explanationB (parseAIResponse (tableRuntime [longReplyParsed]) (Prim (Str longReply)))
     = Prim (Str longExplanation)
   \<and> length longExplanation = 501"
  by (simp add: parseAIResponse_def parseAIResponse_try_def longReply_cleaned tableRuntime_def
        longReplyParsed_def signalNames_def toLowerCase_def toLowerCase_char_def orElse_def
        longExplanation_def)

lemma tryParseAI_try_explanation_length:
  "tryParseAI_try rt cleaned = Inr r \<Longrightarrow> length (explanation r) \<le> 500"
  by (auto simp: tryParseAI_try_def
           split: option.splits sum.splits json.splits jsval.splits if_splits)

lemma tryParseAI_explanation_length: "length (explanation (tryParseAI rt text)) \<le> 500"
proof (cases "tryParseAI_try rt (tryParseAI_cleaned text)")
  case (Inl e)
  then show ?thesis by (simp add: tryParseAI_def generateFallbackSignal_empty)
next
  case (Inr r)
  then show ?thesis using tryParseAI_try_explanation_length [OF Inr]
    by (simp add: tryParseAI_def)
qed

lemma tryParseAI_try_explanation:
  "JSON_parse rt cleaned = Some parsed \<Longrightarrow> tryParseAI_try rt cleaned = Inr r
   \<Longrightarrow> getProp parsed ''explanation'' = Inr (Prim (Str ex)) \<Longrightarrow> ex \<noteq> []
   \<Longrightarrow> explanation r = take 500 ex"
  by (auto simp: tryParseAI_try_def split: if_splits sum.splits json.splits jsval.splits)

lemma parseAIResponse_try_confidence:
  "JSON_parse rt (trim (stripFences text)) = Some parsed
   \<Longrightarrow> parseAIResponse_try rt (Prim (Str text)) = Inr r
   \<Longrightarrow> getProp parsed ''confidence'' = Inr (Prim Undefined)
   \<Longrightarrow> confidenceB r = Prim (Str ''medium'')"
  by (auto simp: parseAIResponse_try_def orElse_def
           split: if_splits sum.splits json.splits jsval.splits)

text \<open>
  Claim C5, amended. In variant A the explanation of the interpreted signal has at most 500
  characters for every reply, a non-empty string explanation of an accepted reply being cut
  to its first 500 characters; a signal of variant A has no confidence field. In variant B
  the confidence of an accepted reply without a \<open>confidence\<close> property is medium; variant B
  does not cut the explanation.
\<close>

theorem explanation_and_confidence:
  "length (explanation (tryParseAI rt text)) \<le> 500
   \<and> (\<forall>parsed r ex. JSON_parse rt (trim (stripFences text)) = Some parsed
          \<and> tryParseAI_try rt (trim (stripFences text)) = Inr r
          \<and> getProp parsed ''explanation'' = Inr (Prim (Str ex)) \<and> ex \<noteq> []
        \<longrightarrow> explanation (tryParseAI rt text) = take 500 ex)
   \<and> (\<forall>parsed r. JSON_parse rt (trim (stripFences text)) = Some parsed
          \<and> parseAIResponse_try rt (Prim (Str text)) = Inr r
          \<and> getProp parsed ''confidence'' = Inr (Prim Undefined)
        \<longrightarrow> confidenceB (parseAIResponse rt (Prim (Str text))) = Prim (Str ''medium''))"
proof (intro conjI impI allI)
  show "length (explanation (tryParseAI rt text)) \<le> 500"
    by (rule tryParseAI_explanation_length)
next
  fix parsed r ex
  assume "JSON_parse rt (trim (stripFences text)) = Some parsed
          \<and> tryParseAI_try rt (trim (stripFences text)) = Inr r
          \<and> getProp parsed ''explanation'' = Inr (Prim (Str ex)) \<and> ex \<noteq> []"
  then show "explanation (tryParseAI rt text) = take 500 ex"
    using tryParseAI_try_explanation [of rt "trim (stripFences text)" parsed r ex]
    by (simp add: tryParseAI_def tryParseAI_cleaned_def)
next
  fix parsed r
  assume "JSON_parse rt (trim (stripFences text)) = Some parsed
          \<and> parseAIResponse_try rt (Prim (Str text)) = Inr r
          \<and> getProp parsed ''confidence'' = Inr (Prim Undefined)"
  then show "confidenceB (parseAIResponse rt (Prim (Str text))) = Prim (Str ''medium'')"
    using parseAIResponse_try_confidence [of rt "text" parsed r]
    by (simp add: parseAIResponse_def)
qed

theorem explanation_and_confidence_witness:
  "JSON_parse (tableRuntime [longReplyParsed]) (trim (stripFences longReply))
     = Some (snd longReplyParsed)
   \<and> tryParseAI_try (tableRuntime [longReplyParsed]) (trim (stripFences longReply))
       = Inr \<lparr>signal = ''buy'', explanation = replicate 500 (CHR ''a'')\<rparr>
   \<and> getProp (snd longReplyParsed) ''explanation'' = Inr (Prim (Str longExplanation))
   \<and> longExplanation \<noteq> []
   \<and> explanation (tryParseAI (tableRuntime [longReplyParsed]) longReply)
       = replicate 500 (CHR ''a'')
   \<and> parseAIResponse_try (tableRuntime [longReplyParsed]) (Prim (Str longReply))
       = Inr \<lparr>signalB = ''buy'', confidenceB = Prim (Str ''medium''),
              explanationB = Prim (Str longExplanation)\<rparr>
   \<and> getProp (snd longReplyParsed) ''confidence'' = Inr (Prim Undefined)
   \<and> confidenceB (parseAIResponse (tableRuntime [longReplyParsed]) (Prim (Str longReply)))
       = Prim (Str ''medium'')"
proof -
  have lower: "toLowerCase ''buy'' = ''buy''"
    by code_simp
  have cut: "take 500 longExplanation = replicate 500 (CHR ''a'')"
    by (simp add: longExplanation_def)
  have nonempty: "longExplanation \<noteq> []"
    by (simp add: longExplanation_def)
  show ?thesis
    using explanation_and_confidence [of "tableRuntime [longReplyParsed]" longReply]
    by (simp add: longReply_cleaned tableRuntime_def longReplyParsed_def tryParseAI_try_def
          parseAIResponse_try_def lower cut nonempty signalNames_def orElse_def)
qed

section \<open>Signal Filter\<close>

lemma filterSignal_buy_against_bearish:
  "signalB parsedSignal = ''buy'' \<Longrightarrow> d1Trend h = Str ''strong bearish''
   \<Longrightarrow> json_ToString rt (explanationB parsedSignal) = Inr ex
   \<Longrightarrow> filterSignal rt parsedSignal ind vol avg (Some h)
        = Inr (parsedSignal\<lparr>signalB := ''hold'', confidenceB := Prim (Str ''low''),
                 explanationB := Prim (Str (ex @ '' (Rejected: Against D1 strong trend)''))\<rparr>)"
  by (simp add: filterSignal_def rejected_def)

text \<open>
  Claim C4. The filter is to turn a signal into hold, with confidence low and a rejection
  note appended, when it is buy against a strongly bearish higher-timeframe trend, and in
  the mirrored case of sell against a strongly bullish trend. The code has the first case
  only: the sell signal below, against a strongly bullish daily trend (RSI 50, volume equal
  to its average), comes back unchanged, while the mirrored buy signal is turned into hold.
\<close>

theorem filterSignal_sell_against_bullish:
  "filterSignal rt sellSignal (Some (numbers 11 12 50)) (Num (Fin 1000)) (Num (Fin 1000))
     (Some strongBullish) = Inr sellSignal
   \<and> filterSignal rt buySignal (Some (numbers 12 11 50)) (Num (Fin 1000)) (Num (Fin 1000))
     (Some strongBearish)
     = Inr \<lparr>signalB = ''hold'', confidenceB = Prim (Str ''low''),
            explanationB = Prim (Str ''x (Rejected: Against D1 strong trend)'')\<rparr>"
  by (simp add: filterSignal_def rejected_def sellSignal_def buySignal_def strongBullish_def
        strongBearish_def numbers_def js_gt_def)

section \<open>Indicator Validator\<close>

lemma validateIndicator_range:
  "validateIndicator rt v (Fin lo) (Fin hi) name =
     (if withinRange v lo hi then Inr ()
      else Inl (Error (''Invalid '' @ name @ '': must be between ''
                        @ NumberToString rt (Fin lo) @ ''-'' @ NumberToString rt (Fin hi))))"
proof (cases v)
  case (Num n)
  then show ?thesis by (cases n) (auto simp: validateIndicator_def js_gt_def)
qed (simp_all add: validateIndicator_def)

lemma validateIndicator_nonNegative:
  "validateIndicator rt v (Fin 0) PInf name =
     (if nonNegative v then Inr ()
      else Inl (Error (''Invalid '' @ name @ '': must be between ''
                        @ NumberToString rt (Fin 0) @ ''-'' @ NumberToString rt PInf)))"
proof (cases v)
  case (Num n)
  then show ?thesis by (cases n) (auto simp: validateIndicator_def js_gt_def)
qed (simp_all add: validateIndicator_def)

lemma validateInputs_cases:
  "indicators data = Some ind \<Longrightarrow> ohlc data = Some c \<Longrightarrow>
   validateInputs rt data =
     (if \<not> withinRange (rsi ind) 0 100 then
        Inl (Error (''Invalid RSI: must be between '' @ NumberToString rt (Fin 0) @ ''-''
                     @ NumberToString rt (Fin 100)))
      else if \<not> withinRange (adx data) 0 100 then
        Inl (Error (''Invalid ADX: must be between '' @ NumberToString rt (Fin 0) @ ''-''
                     @ NumberToString rt (Fin 100)))
      else if \<not> nonNegative (atr data) then
        Inl (Error (''Invalid ATR: must be between '' @ NumberToString rt (Fin 0) @ ''-''
                     @ NumberToString rt PInf))
      else if js_lt rt (high c) (low c) then Inl (Error ''Invalid OHLC: High must be >= Low'')
      else if js_le rt (open c) (Num (Fin 0)) \<or> js_le rt (high c) (Num (Fin 0))
              \<or> js_le rt (low c) (Num (Fin 0)) \<or> js_le rt (close c) (Num (Fin 0))
      then Inl (Error ''Invalid OHLC: Prices must be positive'')
      else Inr ())"
  by (simp add: validateInputs_def validateIndicator_range validateIndicator_nonNegative
        andThen_def)







section \<open>Derived-Value Calculator\<close>

lemma num_div_zero: "num_isZero z \<Longrightarrow> \<not> num_isFinite (num_div a z)"
  by (cases a; cases z) (auto simp: num_div_def mk_inf_def)

lemma num_le_nonfinite:
  "\<not> num_isFinite n \<Longrightarrow> num_le n (Fin x) = (n = NInf)"
  by (cases n) (auto simp: num_le_def)

lemma toLowerCase_Hammer: "toLowerCase ''Hammer'' = ''hammer''"
  by code_simp

lemma zeroAtrData_derived:
  "calculateDerivedValues (tableRuntime []) 10 zeroAtrData (Num (Fin 0)) = Inr zeroAtrDerived"
  "calculateDerivedValues (tableRuntime []) 10 zeroAtrData' (Num (Fin 0)) = Inr zeroAtrDerived'"
  by (simp_all add: calculateDerivedValues_def zeroAtrData_def zeroAtrData'_def plainData_def
        plainCandle_def numbers_def zeroAtrDerived_def zeroAtrDerived'_def toLowerCase_Hammer
        VALID_PATTERNS_def getSessionType_def js_sub_def js_div_def js_add_def js_gt_def
        num_sub_def num_add_def num_div_def num_le_def mk_zero_def mk_inf_def
        MACD_HISTOGRAM_MIN_CHANGE_def SUPPORT_RESISTANCE_DISTANCE_ATR_def)

lemma zeroAtrData_valid:
  "validateInputs (tableRuntime []) zeroAtrData = Inr ()"
  "validateInputs (tableRuntime []) zeroAtrData' = Inr ()"
  by (simp_all add: validateInputs_cases zeroAtrData_def zeroAtrData'_def plainData_def
        plainCandle_def numbers_def num_le_def)

text \<open>
  Claim C10. An ATR of zero (of either sign) passes the range check of the validator, and
  for every snapshot the validator accepts with such an ATR the Derived-Value Calculator
  divides by it: the support and resistance distances are NaN or an infinity, and the two
  proximity flags are the comparison of these values with 1.5, which holds exactly when the
  distance is negative infinity. Such snapshots exist: the witness gives two of them.
\<close>

theorem zero_atr_division:
  "validateInputs rt data = Inr () \<Longrightarrow> atr data = Num z \<Longrightarrow> num_isZero z
   \<Longrightarrow> calculateDerivedValues rt hour data prev = Inr d
   \<Longrightarrow> validateIndicator rt (atr data) (Fin 0) PInf ''ATR'' = Inr ()
     \<and> (\<exists>n. supportDistanceATR d = Num n \<and> \<not> num_isFinite n)
     \<and> (\<exists>n. resistanceDistanceATR d = Num n \<and> \<not> num_isFinite n)
     \<and> isNearSupport d = js_le rt (supportDistanceATR d) (Num SUPPORT_RESISTANCE_DISTANCE_ATR)
     \<and> isNearResistance d
         = js_le rt (resistanceDistanceATR d) (Num SUPPORT_RESISTANCE_DISTANCE_ATR)
     \<and> isNearSupport d = (supportDistanceATR d = Num NInf)
     \<and> isNearResistance d = (resistanceDistanceATR d = Num NInf)"
proof -
  assume valid: "validateInputs rt data = Inr ()" and atr: "atr data = Num z"
    and zero: "num_isZero z" and derived: "calculateDerivedValues rt hour data prev = Inr d"
  have range: "validateIndicator rt (atr data) (Fin 0) PInf ''ATR'' = Inr ()"
    using atr zero by (cases z) (auto simp: validateIndicator_def js_gt_def)
  from derived obtain c ind pat where parts: "ohlc data = Some c" "indicators data = Some ind"
    and d: "d = \<lparr>price = close c, hourUTC = hour, sessionType = getSessionType hour,
               macdHistCurrent = js_sub rt (macd ind) (macd_signal ind),
               isMacdRising =
                 js_gt rt (js_sub rt (macd ind) (macd_signal ind))
                   (js_add rt prev (Num MACD_HISTOGRAM_MIN_CHANGE)),
               supportDistanceATR = js_div rt (js_sub rt (close c) (support data)) (atr data),
               resistanceDistanceATR =
                 js_div rt (js_sub rt (resistance data) (close c)) (atr data),
               isNearSupport =
                 js_le rt (js_div rt (js_sub rt (close c) (support data)) (atr data))
                   (Num SUPPORT_RESISTANCE_DISTANCE_ATR),
               isNearResistance =
                 js_le rt (js_div rt (js_sub rt (resistance data) (close c)) (atr data))
                   (Num SUPPORT_RESISTANCE_DISTANCE_ATR),
               isValidPattern = (toLowerCase pat \<in> set VALID_PATTERNS),
               trend =
                 (if js_gt rt (ema9 ind) (ema21 ind) then ''bullish''
                  else if js_lt rt (ema9 ind) (ema21 ind) then ''bearish'' else ''neutral''),
               momentum =
                 (if js_gt rt (rsi ind) (Num (Fin 70)) then ''overbought''
                  else if js_lt rt (rsi ind) (Num (Fin 30)) then ''oversold'' else ''neutral''),
               macdTrend =
                 (if js_gt rt (macd ind) (macd_signal ind) then ''bullish'' else ''bearish'')\<rparr>"
    by (auto simp: calculateDerivedValues_def split: option.splits jsval.splits)
  have s: "supportDistanceATR d = Num (num_div (num_sub (ToNumber rt (close c)) (ToNumber rt (support data))) z)"
    by (simp add: d js_div_def js_sub_def atr)
  have r: "resistanceDistanceATR d = Num (num_div (num_sub (ToNumber rt (resistance data)) (ToNumber rt (close c))) z)"
    by (simp add: d js_div_def js_sub_def atr)
  have ns: "isNearSupport d = js_le rt (supportDistanceATR d) (Num SUPPORT_RESISTANCE_DISTANCE_ATR)"
    and nr: "isNearResistance d = js_le rt (resistanceDistanceATR d) (Num SUPPORT_RESISTANCE_DISTANCE_ATR)"
    by (simp_all add: d)
  show ?thesis
    using range s r ns nr num_div_zero [OF zero]
    by (simp add: SUPPORT_RESISTANCE_DISTANCE_ATR_def num_le_nonfinite)
qed


theorem zero_atr_division_witness:
  "(validateInputs (tableRuntime []) zeroAtrData = Inr ()
    \<and> atr zeroAtrData = Num (Fin 0) \<and> num_isZero (Fin 0)
    \<and> calculateDerivedValues (tableRuntime []) 10 zeroAtrData (Num (Fin 0)) = Inr zeroAtrDerived
    \<and> supportDistanceATR zeroAtrDerived = Num PInf
    \<and> resistanceDistanceATR zeroAtrDerived = Num PInf
    \<and> \<not> isNearSupport zeroAtrDerived \<and> \<not> isNearResistance zeroAtrDerived)
   \<and> (validateInputs (tableRuntime []) zeroAtrData' = Inr ()
    \<and> atr zeroAtrData' = Num NZero \<and> num_isZero NZero
    \<and> calculateDerivedValues (tableRuntime []) 10 zeroAtrData' (Num (Fin 0)) = Inr zeroAtrDerived'
    \<and> supportDistanceATR zeroAtrDerived' = Num NaN
    \<and> resistanceDistanceATR zeroAtrDerived' = Num NInf
    \<and> \<not> isNearSupport zeroAtrDerived' \<and> isNearResistance zeroAtrDerived')"
  using zero_atr_division [of "tableRuntime []" zeroAtrData "Fin 0" 10 "Num (Fin 0)" zeroAtrDerived]
    zero_atr_division [of "tableRuntime []" zeroAtrData' NZero 10 "Num (Fin 0)" zeroAtrDerived']
  by (simp add: zeroAtrData_derived zeroAtrData_valid)
    (simp add: zeroAtrData_def zeroAtrData'_def plainData_def zeroAtrDerived_def
      zeroAtrDerived'_def)

text \<open>
  Inside the orchestrator of variant A such a snapshot does not come this far: a zero is
  falsy, so \<open>parseRequest\<close> answers a body whose ATR is zero with status 400.
\<close>

lemma parseRequest_zero_atr:
  "body request = Some bodyJson \<Longrightarrow> atr bodyJson = Num z \<Longrightarrow> num_isZero z
   \<Longrightarrow> \<exists>field. parseRequest request
                 = Inl (createResponse 400 (ErrorBody (''Missing '' @ field)))"
  by (auto simp: parseRequest_def requiredFields_def split: list.splits)

section \<open>Prompt Builder\<close>

lemma assemble_pieces:
  "assemble xs = Inr ps \<Longrightarrow> ((orig, s) \<in> set ps) = ((orig, Inr s) \<in> set xs)"
proof (induction xs arbitrary: ps)
  case Nil
  then show ?case by simp
next
  case (Cons x xs)
  obtain o' r where x: "x = (o', r)" by (cases x)
  show ?case
  proof (cases r)
    case (Inl e)
    with Cons.prems x show ?thesis by simp
  next
    case (Inr t)
    with Cons.prems x obtain rest where rest: "assemble xs = Inr rest" and ps: "ps = (o', t) # rest"
      by (auto split: sum.splits)
    from Cons.IH [OF rest] x Inr ps show ?thesis by auto
  qed
qed

lemma count_list_kept:
  "c \<notin> D \<Longrightarrow> count_list (filter (\<lambda>c. c \<notin> D) xs) c = count_list xs c"
  by (induction xs) auto

lemma sanitizeForPrompt_clean: "set (sanitizeForPrompt rt v) \<inter> promptDelimiters = {}"
  by (auto simp: sanitizeForPrompt_def)

lemma buildAIPrompt_symbol:
  assumes "buildAIPrompt rt data d = Inr ps"
  shows "((FromSymbol, s) \<in> set ps) = (s = sanitizeForPrompt rt (symbol data))"
proof -
  from assms obtain ind where ind: "indicators data = Some ind"
    by (auto simp: buildAIPrompt_def split: option.splits)
  show ?thesis
    by (subst assemble_pieces [OF assms [unfolded buildAIPrompt_def ind option.case]]) simp
qed

lemma buildAIPrompt_pattern:
  assumes "buildAIPrompt rt data d = Inr ps"
  shows "((FromPattern, s) \<in> set ps) = (s = ToString rt (pattern data))"
proof -
  from assms obtain ind where ind: "indicators data = Some ind"
    by (auto simp: buildAIPrompt_def split: option.splits)
  show ?thesis
    by (subst assemble_pieces [OF assms [unfolded buildAIPrompt_def ind option.case]]) simp
qed

lemma userContent_symbol:
  assumes "userContent rt sy tf' c ind vol avg levels higher context' = Inr ps"
  shows "((FromSymbol, s) \<in> set ps) = (s = ToString rt sy)"
  by (subst assemble_pieces [OF assms [unfolded userContent_def]]) simp


lemma braceDerived_computed:
  "calculateDerivedValues (tableRuntime []) 10 bracePatternData (Num (Fin 0)) = Inr braceDerived"
proof -
  have "toLowerCase ''hammer{'' = ''hammer{''" by code_simp
  then show ?thesis
    by (simp add: calculateDerivedValues_def bracePatternData_def plainData_def
        plainCandle_def numbers_def braceDerived_def
        VALID_PATTERNS_def getSessionType_def js_sub_def js_div_def js_add_def js_gt_def
        num_sub_def num_add_def num_div_def num_le_def mk_zero_def mk_inf_def
        MACD_HISTOGRAM_MIN_CHANGE_def SUPPORT_RESISTANCE_DISTANCE_ATR_def)
qed

lemma assemble_all:
  "\<forall>x \<in> set xs. \<not> isl (snd x) \<Longrightarrow> \<not> isl (assemble xs)"
proof (induction xs)
  case Nil
  then show ?case by simp
next
  case (Cons x xs)
  then obtain o' t where "x = (o', Inr t)" by (cases x; cases "snd x") auto
  with Cons show ?case by (auto split: sum.splits)
qed

lemma bracePrompt_built: "\<not> isl (buildAIPrompt (tableRuntime []) bracePatternData braceDerived)"
proof -
  have ind: "indicators bracePatternData = Some (numbers 12 11 50)"
    by (simp add: bracePatternData_def plainData_def)
  show ?thesis
    unfolding buildAIPrompt_def ind option.case
    by (rule assemble_all)
      (simp add: toFixed_def braceDerived_def bracePatternData_def plainData_def numbers_def)
qed

lemma braceContent_built:
  "\<not> isl (userContent (tableRuntime []) (Str ''BTC{USD'') (Str ''H1'') plainCandle
            (numbers 12 11 50) (Num (Fin 1000)) (Num (Fin 1000)) (Some plainLevels)
            (Some strongBullish) (Some plainContext))"
  unfolding userContent_def
  by (rule assemble_all) (simp add: keyLevel_def trendOf_def contextOf_def)

text \<open>
  Claim C3, as stated: the symbol and the pattern label are both stripped of the delimiter
  characters before they enter the prompt. In variant A the pattern label enters the prompt
  as it is, and in variant B, which has no pattern field, so does the symbol: a brace in
  either one reaches the prompt.
\<close>

theorem pattern_unsanitized_counterexample:
  "calculateDerivedValues (tableRuntime []) 10 bracePatternData (Num (Fin 0)) = Inr braceDerived
   \<and> \<not> isl (buildAIPrompt (tableRuntime []) bracePatternData braceDerived)
   \<and> (FromPattern, ''hammer{'')
        \<in> set (projr (buildAIPrompt (tableRuntime []) bracePatternData braceDerived))
   \<and> \<not> isl (userContent (tableRuntime []) (Str ''BTC{USD'') (Str ''H1'') plainCandle
            (numbers 12 11 50) (Num (Fin 1000)) (Num (Fin 1000)) (Some plainLevels)
            (Some strongBullish) (Some plainContext))
   \<and> (FromSymbol, ''BTC{USD'')
        \<in> set (projr (userContent (tableRuntime []) (Str ''BTC{USD'') (Str ''H1'') plainCandle
            (numbers 12 11 50) (Num (Fin 1000)) (Num (Fin 1000)) (Some plainLevels)
            (Some strongBullish) (Some plainContext)))
   \<and> CHR ''{'' \<in> promptDelimiters"
proof -
  let ?A = "buildAIPrompt (tableRuntime []) bracePatternData braceDerived"
  let ?B = "userContent (tableRuntime []) (Str ''BTC{USD'') (Str ''H1'') plainCandle
            (numbers 12 11 50) (Num (Fin 1000)) (Num (Fin 1000)) (Some plainLevels)
            (Some strongBullish) (Some plainContext)"
  have a: "?A = Inr (projr ?A)" using bracePrompt_built by (cases ?A) auto
  have b: "?B = Inr (projr ?B)" using braceContent_built by (cases ?B) auto
  have "(FromPattern, ''hammer{'') \<in> set (projr ?A)"
    using buildAIPrompt_pattern [OF a, of "''hammer{''"]
    by (simp add: bracePatternData_def plainData_def)
  moreover have "(FromSymbol, ''BTC{USD'') \<in> set (projr ?B)"
    using userContent_symbol [OF b, of "''BTC{USD''"] by simp
  ultimately show ?thesis
    using braceDerived_computed bracePrompt_built braceContent_built
    by (simp add: promptDelimiters_def)
qed

text \<open>
  Claim C3, amended. The sanitizer removes every occurrence of the nine delimiter
  characters and keeps every other character. In variant A the symbol enters the prompt
  sanitized: the piece of the prompt that comes from the symbol is the sanitized symbol and
  holds none of the nine characters. Variant B puts the symbol into its prompt as it is.
\<close>

theorem symbol_sanitized:
  "set (sanitizeForPrompt rt v) \<inter> promptDelimiters = {}
   \<and> (\<forall>c. c \<notin> promptDelimiters \<longrightarrow>
          count_list (sanitizeForPrompt rt v) c = count_list (ToString rt v) c)
   \<and> (buildAIPrompt rt data d = Inr ps \<longrightarrow>
        (FromSymbol, sanitizeForPrompt rt (symbol data)) \<in> set ps
        \<and> (\<forall>s. (FromSymbol, s) \<in> set ps \<longrightarrow> set s \<inter> promptDelimiters = {}))
   \<and> (userContent rt sy tf' c ind vol avg levels higher context' = Inr ps'
        \<longrightarrow> (FromSymbol, ToString rt sy) \<in> set ps')"
proof (intro conjI impI allI)
  show "set (sanitizeForPrompt rt v) \<inter> promptDelimiters = {}"
    by (rule sanitizeForPrompt_clean)
next
  fix c assume "c \<notin> promptDelimiters"
  then show "count_list (sanitizeForPrompt rt v) c = count_list (ToString rt v) c"
    unfolding sanitizeForPrompt_def by (rule count_list_kept)
next
  assume built: "buildAIPrompt rt data d = Inr ps"
  show "(FromSymbol, sanitizeForPrompt rt (symbol data)) \<in> set ps"
    using buildAIPrompt_symbol [OF built] by simp
  fix s assume "(FromSymbol, s) \<in> set ps"
  then show "set s \<inter> promptDelimiters = {}"
    using buildAIPrompt_symbol [OF built] sanitizeForPrompt_clean by simp
next
  assume "userContent rt sy tf' c ind vol avg levels higher context' = Inr ps'"
  then show "(FromSymbol, ToString rt sy) \<in> set ps'"
    using userContent_symbol by simp
qed


lemma taggedPrompt_built: "\<not> isl (buildAIPrompt (tableRuntime []) taggedSymbolData plainDerived)"
proof -
  have ind: "indicators taggedSymbolData = Some (numbers 12 11 50)"
    by (simp add: taggedSymbolData_def plainData_def)
  show ?thesis
    unfolding buildAIPrompt_def ind option.case
    by (rule assemble_all)
      (simp add: toFixed_def plainDerived_def braceDerived_def taggedSymbolData_def
        plainData_def numbers_def)
qed

theorem symbol_sanitized_witness:
  "sanitizeForPrompt (tableRuntime []) (symbol taggedSymbolData) = ''EURUSD''
   \<and> \<not> isl (buildAIPrompt (tableRuntime []) taggedSymbolData plainDerived)
   \<and> (FromSymbol, ''EURUSD'')
        \<in> set (projr (buildAIPrompt (tableRuntime []) taggedSymbolData plainDerived))
   \<and> (FromSymbol, ''BTC{USD'')
        \<in> set (projr (userContent (tableRuntime []) (Str ''BTC{USD'') (Str ''H1'') plainCandle
            (numbers 12 11 50) (Num (Fin 1000)) (Num (Fin 1000)) (Some plainLevels)
            (Some strongBullish) (Some plainContext)))"
proof -
  let ?A = "buildAIPrompt (tableRuntime []) taggedSymbolData plainDerived"
  let ?B = "userContent (tableRuntime []) (Str ''BTC{USD'') (Str ''H1'') plainCandle
            (numbers 12 11 50) (Num (Fin 1000)) (Num (Fin 1000)) (Some plainLevels)
            (Some strongBullish) (Some plainContext)"
  have a: "?A = Inr (projr ?A)" using taggedPrompt_built by (cases ?A) auto
  have b: "?B = Inr (projr ?B)" using braceContent_built by (cases ?B) auto
  have clean: "sanitizeForPrompt (tableRuntime []) (symbol taggedSymbolData) = ''EURUSD''"
    by (simp add: sanitizeForPrompt_def taggedSymbolData_def plainData_def
          promptDelimiters_def)
  show ?thesis
    using symbol_sanitized [of "tableRuntime []" "symbol taggedSymbolData" taggedSymbolData
        plainDerived "projr ?A" "Str ''BTC{USD''" "Str ''H1''" plainCandle "numbers 12 11 50"
        "Num (Fin 1000)" "Num (Fin 1000)" "Some plainLevels" "Some strongBullish"
        "Some plainContext" "projr ?B"] a b taggedPrompt_built
    by (simp add: clean)
qed

section \<open>Request Orchestrator\<close>




































section \<open>Absorbed failures\<close>















end
